theory Spec2Isabelle
  imports Main "HOL-Library.Sublist"
begin

section \<open>tldwatch: fetch the IANA TLD list, store unseen entries, report them\<close>

text \<open>
  A Go \<open>string\<close> is a byte sequence and is modelled as \<open>string\<close> (a list of 8-bit
  characters); non-ASCII text appears as its UTF-8 bytes. The named type \<open>tld\<close> of the
  source is a string and is not distinguished here.
\<close>

subsection \<open>Library functions the program calls\<close>

text \<open>
  The program is glue around the Go standard library, \<open>golang.org/x/net/idna\<close> and an
  SQLite driver. The pure library functions it applies to data are parameters of the
  model, so every theorem below holds for whatever these functions compute:
  \<^item> \<open>TrimSpace\<close>, \<open>ToLower\<close>: \<open>strings.TrimSpace\<close>, \<open>strings.ToLower\<close>;
  \<^item> \<open>ToUnicode\<close>: \<open>idna.New(idna.BidiRule()).ToUnicode\<close>, returning the string and the
    optional error (as the text of \<open>err.Error()\<close>);
  \<^item> \<open>Quote\<close>: the \<open>%q\<close> verb of \<open>fmt\<close> on a string;
  \<^item> \<open>json_string\<close>: the JSON text \<open>encoding/json\<close> writes for one string.
\<close>

record libs =
  TrimSpace :: "string \<Rightarrow> string"
  ToLower :: "string \<Rightarrow> string"
  ToUnicode :: "string \<Rightarrow> string \<times> string option"
  Quote :: "string \<Rightarrow> string"
  json_string :: "string \<Rightarrow> string"

text \<open>\<open>strings.HasPrefix(s, prefix)\<close>: \<open>len(s) >= len(prefix) && s[:len(prefix)] == prefix\<close>.\<close>

definition HasPrefix :: "string \<Rightarrow> string \<Rightarrow> bool" where
  "HasPrefix s pre = (length pre \<le> length s \<and> take (length pre) s = pre)"

text \<open>
  A Go slice is \<open>nil\<close> or holds a sequence; \<open>append\<close> to a \<open>nil\<close> slice allocates.
  The difference is visible in the JSON output (\<open>null\<close> against \<open>[]\<close>).
\<close>

type_synonym 'a slice = "'a list option"

definition append_slice :: "'a slice \<Rightarrow> 'a \<Rightarrow> 'a slice" where
  "append_slice s x = (case s of None \<Rightarrow> Some [x] | Some xs \<Rightarrow> Some (xs @ [x]))"

definition elems :: "'a slice \<Rightarrow> 'a list" where
  "elems s = (case s of None \<Rightarrow> [] | Some xs \<Rightarrow> xs)"

subsection \<open>Logging\<close>

text \<open>
  \<open>log/slog\<close> levels, and a log record as the JSON handler writes it to standard error
  (level, message, attributes; the time stamp is left out). The logger is represented
  by its level variable: a record is written when its level is at least the logger's.
\<close>

datatype level = LevelDebug | LevelInfo | LevelWarn | LevelError

fun level_num :: "level \<Rightarrow> int" where
  "level_num LevelDebug = -4"
| "level_num LevelInfo = 0"
| "level_num LevelWarn = 4"
| "level_num LevelError = 8"

datatype log_record = Log level string "(string \<times> string) list"

type_synonym logger = level

definition Enabled :: "logger \<Rightarrow> level \<Rightarrow> bool" where
  "Enabled l lv = (level_num l \<le> level_num lv)"

subsection \<open>The world a run acts on, and what the outside answers\<close>

text \<open>
  An SQLite file either has no table \<open>tlds\<close> or has it with its rows (in insertion
  order). \<open>files\<close> maps a path to the database file there, if one exists.
  \<open>calls\<close> records the store operations a run performs, in order, with the error each
  insert returned.
\<close>

datatype dbfile = No_table | Tlds "string list"

datatype call =
    Stat string
  | Open string
  | ExecInit
  | Prepare
  | ExecInsert string "string option"
  | CloseStmt

record world =
  files :: "string \<rightharpoonup> dbfile"
  stdout :: string
  stderr :: "log_record list"
  calls :: "call list"

text \<open>
  The response of the HTTP GET as the loop of \<open>loadTLDs\<close> sees it: \<open>tokens\<close> are the
  lines \<open>scanner.Text()\<close> returns while \<open>scanner.Scan()\<close> is true, in order;
  \<open>scan_err\<close> is what \<open>scanner.Err()\<close> holds when \<open>Scan\<close> returns false (a read error
  of the body, such as the deadline passing while the body is read, or a line that
  is too long); \<open>close_err\<close> is the result of \<open>res.Body.Close()\<close>.
\<close>

record response =
  tokens :: "string list"
  scan_err :: "string option"
  close_err :: "string option"

text \<open>
  What the outside answers during one run: the result of each call that can fail for
  reasons outside the program.
  \<^item> \<open>request_err\<close>: \<open>http.NewRequestWithContext\<close>;
  \<^item> \<open>do_result\<close>: \<open>Client.Do\<close>, an error (network failure, deadline) or a response;
  \<^item> \<open>open_err\<close>: \<open>sql.Open\<close>; \<open>init_err\<close>: \<open>db.Exec(sqliteInitStmt)\<close>, and whether
    a failed initialisation leaves a database file without the table behind;
  \<^item> \<open>prepare_err\<close>: \<open>db.Prepare\<close>;
  \<^item> \<open>insert_faults\<close>: for the i-th \<open>stmt.ExecContext\<close>, a failure other than the
    primary-key constraint (I/O error, locked database, ...), if any;
  \<^item> \<open>write_err\<close>: the write to standard output; \<open>Some (n, e)\<close> when only \<open>n\<close> bytes
    were written and the error \<open>e\<close> was returned;
  \<^item> \<open>stmt_close_err\<close>: \<open>stmt.Close()\<close>.
\<close>

record env =
  request_err :: "string option"
  do_result :: "string + response"
  open_err :: "string option"
  init_err :: "string option"
  init_leaves_file :: bool
  prepare_err :: "string option"
  insert_faults :: "string option list"
  write_err :: "(nat \<times> string) option"
  stmt_close_err :: "string option"

text \<open>The errors \<open>run\<close> returns, each wrapping the text of the underlying error.\<close>

datatype error =
    CreateRequestFailed string
  | GetFailed string
  | OpenFailed string
  | InitFailed string
  | PrepareFailed string
  | JSONPrintFailed string

fun Error :: "error \<Rightarrow> string" where
  "Error (CreateRequestFailed e) = ''failed to create request: '' @ e"
| "Error (GetFailed e) = ''failed to get: '' @ e"
| "Error (OpenFailed e) = ''failed to open sqlite database: '' @ e"
| "Error (InitFailed e) = ''failed to init database: '' @ e"
| "Error (PrepareFailed e) = ''failed to prepare insert statement: '' @ e"
| "Error (JSONPrintFailed e) = ''failed to JSON-print to stdout: '' @ e"

definition log_to :: "logger \<Rightarrow> log_record \<Rightarrow> world \<Rightarrow> world" where
  "log_to l r w =
     (case r of Log lv msg attrs \<Rightarrow>
        if Enabled l lv then w\<lparr>stderr := stderr w @ [r]\<rparr> else w)"

definition l_Error :: "logger \<Rightarrow> string \<Rightarrow> (string \<times> string) list \<Rightarrow> world \<Rightarrow> world" where
  "l_Error l msg attrs w = log_to l (Log LevelError msg attrs) w"

definition l_Info :: "logger \<Rightarrow> string \<Rightarrow> world \<Rightarrow> world" where
  "l_Info l msg w = log_to l (Log LevelInfo msg []) w"

definition did :: "call \<Rightarrow> world \<Rightarrow> world" where
  "did c w = w\<lparr>calls := calls w @ [c]\<rparr>"

subsection \<open>env.go: getenv\<close>

text \<open>\<open>os.Getenv\<close> returns the empty string for a variable that is not set.\<close>

definition os_Getenv :: "(string \<rightharpoonup> string) \<Rightarrow> string \<Rightarrow> string" where
  "os_Getenv environ key = (case environ key of None \<Rightarrow> [] | Some v \<Rightarrow> v)"

definition getenv :: "(string \<rightharpoonup> string) \<Rightarrow> string \<Rightarrow> string \<Rightarrow> string" where
  "getenv environ key fallback =
     (let v = os_Getenv environ key in if v = [] then fallback else v)"

subsection \<open>loadTLDs\<close>

definition decode_failed_msg :: "libs \<Rightarrow> string \<Rightarrow> string \<Rightarrow> string" where
  "decode_failed_msg L line e = ''failed to puny decode '' @ Quote L line @ '': '' @ e"

text \<open>
  The body of the scanner loop, for the lines still to come; \<open>tlds\<close> is the slice
  built so far. The entry appended is \<open>t\<close>, the string \<open>ToUnicode\<close> returned, whether or
  not it also returned an error.
\<close>

fun scan_loop :: "libs \<Rightarrow> logger \<Rightarrow> string list \<Rightarrow> string slice \<Rightarrow> world \<Rightarrow> string slice \<times> world" where
  "scan_loop L l [] tlds w = (tlds, w)"
| "scan_loop L l (text # rest) tlds w =
     (let line = ToLower L (TrimSpace L text) in
      if line = [] \<or> HasPrefix line ''#'' then scan_loop L l rest tlds w
      else
        (case ToUnicode L line of
           (t, err) \<Rightarrow>
             let w' = (case err of
                         None \<Rightarrow> w
                       | Some e \<Rightarrow> l_Error l (decode_failed_msg L line e) [] w)
             in scan_loop L l rest (append_slice tlds t) w'))"

definition loadTLDs :: "libs \<Rightarrow> env \<Rightarrow> logger \<Rightarrow> world \<Rightarrow> (error + string slice) \<times> world" where
  "loadTLDs L E l w =
     (case request_err E of
        Some e \<Rightarrow> (Inl (CreateRequestFailed e), w)
      | None \<Rightarrow>
         (case do_result E of
            Inl e \<Rightarrow> (Inl (GetFailed e), w)
          | Inr res \<Rightarrow>
             (case scan_loop L l (tokens res) None w of
                (tlds, w1) \<Rightarrow>
                  let w2 = (case close_err res of
                              None \<Rightarrow> w1
                            | Some e \<Rightarrow> l_Error l (''failed to close body: '' @ e) [] w1)
                  in (Inr tlds, w2))))"

subsection \<open>The store\<close>

text \<open>
  The table is \<open>create table tlds (tld text primary key not null) strict\<close>: a set of
  strings, compared byte by byte. An insert of a string that is already a row fails
  with the driver's primary-key message, which the source expects to read as below
  (line 132); any other failure comes from outside (\<open>insert_faults\<close>) and leaves the
  rows as they are. Each insert is its own transaction.
\<close>

definition primary_key_violation :: string where
  "primary_key_violation = ''constraint failed: UNIQUE constraint failed: tlds.tld (1555)''"

definition no_such_table :: string where
  "no_such_table = ''SQL logic error: no such table: tlds (1)''"

definition stmt_ExecContext :: "string option \<Rightarrow> string list \<Rightarrow> string \<Rightarrow> string option \<times> string list" where
  "stmt_ExecContext fault rows t =
     (case fault of
        Some e \<Rightarrow> (Some e, rows)
      | None \<Rightarrow>
          if t \<in> set rows then (Some primary_key_violation, rows)
          else (None, rows @ [t]))"

text \<open>
  \<open>db.Exec(sqliteInitStmt)\<close>, run when the file did not exist: it creates the file
  with the empty table, in one transaction.
\<close>

definition db_Exec_init :: "env \<Rightarrow> string \<Rightarrow> world \<Rightarrow> string option \<times> world" where
  "db_Exec_init E f w =
     (let w1 = did ExecInit w in
      case init_err E of
        Some e \<Rightarrow>
          (Some e, if init_leaves_file E then w1\<lparr>files := (files w1)(f \<mapsto> No_table)\<rparr> else w1)
      | None \<Rightarrow> (None, w1\<lparr>files := (files w1)(f \<mapsto> Tlds [])\<rparr>))"

text \<open>\<open>db.Prepare(sqliteInsertStmt)\<close> needs the table; it returns the statement, here the rows it inserts into.\<close>

definition db_Prepare :: "env \<Rightarrow> string \<Rightarrow> world \<Rightarrow> (string + string list) \<times> world" where
  "db_Prepare E f w =
     (let w1 = did Prepare w in
      case prepare_err E of
        Some e \<Rightarrow> (Inl e, w1)
      | None \<Rightarrow>
          (case files w1 f of
             Some (Tlds rows) \<Rightarrow> (Inr rows, w1)
           | Some No_table \<Rightarrow> (Inl no_such_table, w1)
           | None \<Rightarrow> (Inl no_such_table, w1)))"

definition stmt_Close :: "env \<Rightarrow> logger \<Rightarrow> world \<Rightarrow> world" where
  "stmt_Close E l w =
     (let w1 = did CloseStmt w in
      case stmt_close_err E of
        None \<Rightarrow> w1
      | Some e \<Rightarrow> l_Error l (''failed to close insert statement: '' @ e) [] w1)"

subsection \<open>JSON output\<close>

fun join :: "string \<Rightarrow> string list \<Rightarrow> string" where
  "join sep [] = []"
| "join sep [x] = x"
| "join sep (x # y # ys) = x @ sep @ join sep (y # ys)"

text \<open>\<open>encoding/json\<close> on a slice of strings: \<open>null\<close> for the \<open>nil\<close> slice, else an array.\<close>

definition json_Marshal :: "libs \<Rightarrow> string slice \<Rightarrow> string" where
  "json_Marshal L v =
     (case v of
        None \<Rightarrow> ''null''
      | Some xs \<Rightarrow> ''['' @ join '','' (map (json_string L) xs) @ '']'')"

text \<open>
  \<open>json.NewEncoder(os.Stdout).Encode(v)\<close>: the document and a newline, in one write.
\<close>

definition Encode :: "libs \<Rightarrow> env \<Rightarrow> string slice \<Rightarrow> world \<Rightarrow> string option \<times> world" where
  "Encode L E v w =
     (let b = json_Marshal L v @ [CHR 0x0A] in
      case write_err E of
        None \<Rightarrow> (None, w\<lparr>stdout := stdout w @ b\<rparr>)
      | Some (n, e) \<Rightarrow> (Some e, w\<lparr>stdout := stdout w @ take n b\<rparr>))"

subsection \<open>run\<close>

text \<open>The constant the source compares the text of an insert error with (line 132).\<close>

definition want :: string where
  "want = ''constraint failed: UNIQUE constraint failed: tlds.tld (1555)''"

text \<open>
  The loop over \<open>tlds\<close> (lines 126 to 146). \<open>faults\<close> are the outside failures of the
  inserts still to come, \<open>rows\<close> the table, \<open>newTLDs\<close> the slice built so far.
\<close>

fun insert_loop ::
  "logger \<Rightarrow> string list \<Rightarrow> string option list \<Rightarrow> string list \<Rightarrow> string list \<Rightarrow> world
     \<Rightarrow> string list \<times> string list \<times> world" where
  "insert_loop l [] faults rows newTLDs w = (rows, newTLDs, w)"
| "insert_loop l (tld # rest) faults rows newTLDs w =
     (let fault = (case faults of [] \<Rightarrow> None | f # _ \<Rightarrow> f) in
      case stmt_ExecContext fault rows tld of
        (err, rows') \<Rightarrow>
          let w1 = did (ExecInsert tld err) w in
          (case err of
             Some got \<Rightarrow>
               if got = want then insert_loop l rest (tl faults) rows' newTLDs w1
               else insert_loop l rest (tl faults) rows' newTLDs
                      (l_Error l ''failed to exec insert statement''
                         [(''err'', got), (''tld'', tld)] w1)
           | None \<Rightarrow> insert_loop l rest (tl faults) rows' (newTLDs @ [tld]) w1))"

definition run :: "libs \<Rightarrow> env \<Rightarrow> logger \<Rightarrow> string \<Rightarrow> world \<Rightarrow> error option \<times> world" where
  "run L E l sqliteFile w =
     (case loadTLDs L E l w of
        (Inl err, w1) \<Rightarrow> (Some err, w1)
      | (Inr tlds, w1) \<Rightarrow>
          let isFirstRun = (files w1 sqliteFile = None);
              w2 = did (Open sqliteFile) (did (Stat sqliteFile) w1)
          in
          (case open_err E of
             Some e \<Rightarrow> (Some (OpenFailed e), w2)
           | None \<Rightarrow>
               (case (if isFirstRun then db_Exec_init E sqliteFile w2 else (None, w2)) of
                  (Some e, w3) \<Rightarrow> (Some (InitFailed e), w3)
                | (None, w3) \<Rightarrow>
                    let w4 = (if isFirstRun
                              then l_Info l ''successfully initialized database'' w3 else w3)
                    in
                    (case db_Prepare E sqliteFile w4 of
                       (Inl e, w5) \<Rightarrow> (Some (PrepareFailed e), w5)
                     | (Inr rows, w5) \<Rightarrow>
                         (case insert_loop l (elems tlds) (insert_faults E) rows [] w5 of
                            (rows', newTLDs, w6) \<Rightarrow>
                              let w7 = w6\<lparr>files := (files w6)(sqliteFile \<mapsto> Tlds rows')\<rparr> in
                              (case Encode L E (Some newTLDs) w7 of
                                 (werr, w8) \<Rightarrow>
                                   (map_option JSONPrintFailed werr, stmt_Close E l w8)))))))"

subsection \<open>main\<close>

definition defaultSQLiteFilePath :: string where
  "defaultSQLiteFilePath = ''./db.sqlite''"

text \<open>
  \<open>debug_flag\<close> is the value of \<open>*debug\<close> after \<open>flag.Parse()\<close>. The two definitions are
  lines 161 and 171 to 177 of \<open>main\<close>.
\<close>

definition main_sqliteFile :: "(string \<rightharpoonup> string) \<Rightarrow> string" where
  "main_sqliteFile environ = getenv environ ''SQLITE_FILE'' defaultSQLiteFilePath"

definition main_level :: "bool \<Rightarrow> (string \<rightharpoonup> string) \<Rightarrow> level" where
  "main_level debug_flag environ =
     (let debug = (if getenv environ ''DEBUG'' ''false'' = ''true'' then True else debug_flag)
      in if debug then LevelDebug else LevelInfo)"

definition main :: "libs \<Rightarrow> env \<Rightarrow> bool \<Rightarrow> (string \<rightharpoonup> string) \<Rightarrow> world \<Rightarrow> world" where
  "main L E debug_flag environ w =
     (let sqliteFile = main_sqliteFile environ;
          l = main_level debug_flag environ
      in case run L E l sqliteFile w of
           (Some err, w') \<Rightarrow> l_Error l (Error err) [] w'
         | (None, w') \<Rightarrow> w')"

subsection \<open>Sample values of the library functions\<close>

text \<open>
  For the concrete runs below, the library functions are given on the strings those
  runs use. \<open>TrimSpace_ascii\<close> removes leading and trailing ASCII white space
  (tab, line feed, vertical tab, form feed, carriage return, space), which is what
  \<open>strings.TrimSpace\<close> does on strings that neither start nor end with a non-ASCII
  space. \<open>ToLower_latin1\<close> maps \<open>A\<close> to \<open>Z\<close> and the UTF-8 encodings of U+00C0 to
  U+00DE (without U+00D7) to their lowercase letters and leaves every other byte,
  which is what \<open>strings.ToLower\<close> does on valid UTF-8 whose other runes have no
  different lowercase form.
\<close>

definition is_space :: "char \<Rightarrow> bool" where
  "is_space c = (c \<in> set [CHR 0x09, CHR 0x0A, CHR 0x0B, CHR 0x0C, CHR 0x0D, CHR 0x20])"

definition TrimSpace_ascii :: "string \<Rightarrow> string" where
  "TrimSpace_ascii s = rev (dropWhile is_space (rev (dropWhile is_space s)))"

definition lower_byte :: "char \<Rightarrow> char" where
  "lower_byte c =
     (let n = (of_char c :: nat) in if 0x41 \<le> n \<and> n \<le> 0x5A then char_of (n + 0x20) else c)"

fun ToLower_latin1 :: "string \<Rightarrow> string" where
  "ToLower_latin1 [] = []"
| "ToLower_latin1 [c] = [lower_byte c]"
| "ToLower_latin1 (c # d # cs) =
     (let n = (of_char d :: nat) in
      if c = CHR 0xC3 \<and> 0x80 \<le> n \<and> n \<le> 0x9E \<and> n \<noteq> 0x97
      then c # char_of (n + 0x20) # ToLower_latin1 cs
      else lower_byte c # ToLower_latin1 (d # cs))"

text \<open>
  \<open>ToUnicode_sample\<close> lists results of the decoder of \<open>golang.org/x/net/idna\<close>, whose
  documentation says: if an error is encountered it will return an error and a
  (partially) processed result.
  \<^item> \<open>xn--p1ai\<close> is the Cyrillic TLD of Russia (U+0440 U+0444);
  \<^item> \<open>xn--wca\<close> is the capital letter U+00DC; the profile applies no case mapping;
  \<^item> in \<open>xn--p1ai.xn--1\<close> the first label decodes and the second is not valid
    punycode: the second label is kept, the first is replaced, and the error is returned;
  \<^item> a line of ASCII letters without the \<open>xn--\<close> prefix is returned as it is.
\<close>

definition rf :: string where
  "rf = [CHR 0xD1, CHR 0x80, CHR 0xD1, CHR 0x84]"

definition ToUnicode_sample :: "string \<Rightarrow> string \<times> string option" where
  "ToUnicode_sample s =
     (if s = ''xn--p1ai'' then (rf, None)
      else if s = ''xn--wca'' then ([CHR 0xC3, CHR 0x9C], None)
      else if s = ''xn--p1ai.xn--1''
      then (rf @ ''.xn--1'', Some (''idna: invalid label '' @ [CHR 0x22] @ ''1'' @ [CHR 0x22]))
      else (s, None))"

text \<open>A string of letters and digits between double quotes, for \<open>%q\<close> and for JSON.\<close>

definition quoted :: "string \<Rightarrow> string" where
  "quoted s = [CHR 0x22] @ s @ [CHR 0x22]"

definition sample_libs :: libs where
  "sample_libs =
     \<lparr>TrimSpace = TrimSpace_ascii, ToLower = ToLower_latin1, ToUnicode = ToUnicode_sample,
      Quote = quoted, json_string = quoted\<rparr>"

text \<open>An outside where nothing fails, answering the GET with the given lines.\<close>

definition serving :: "string list \<Rightarrow> env" where
  "serving ls =
     \<lparr>request_err = None,
      do_result = Inr \<lparr>tokens = ls, scan_err = None, close_err = None\<rparr>,
      open_err = None, init_err = None, init_leaves_file = False, prepare_err = None,
      insert_faults = [], write_err = None, stmt_close_err = None\<rparr>"

definition world0 :: world where
  "world0 = \<lparr>files = Map.empty, stdout = [], stderr = [], calls = []\<rparr>"

subsection \<open>Notions the properties are stated with\<close>

text \<open>
  The parsed sequence in the words of the specification: trim and lowercase every
  line, keep those that are not empty and do not begin with \<open>#\<close>, decode each.
\<close>

definition kept_lines :: "libs \<Rightarrow> string list \<Rightarrow> string list" where
  "kept_lines L toks =
     filter (\<lambda>line. line \<noteq> [] \<and> \<not> HasPrefix line ''#'')
       (map (\<lambda>text. ToLower L (TrimSpace L text)) toks)"

definition parsed_entries :: "libs \<Rightarrow> string list \<Rightarrow> string list" where
  "parsed_entries L toks = map (\<lambda>line. fst (ToUnicode L line)) (kept_lines L toks)"

text \<open>The log records of the decode failures of the kept lines, in order.\<close>

definition decode_failures :: "libs \<Rightarrow> string list \<Rightarrow> log_record list" where
  "decode_failures L toks =
     concat (map (\<lambda>line. case snd (ToUnicode L line) of
                            None \<Rightarrow> []
                          | Some e \<Rightarrow> [Log LevelError (decode_failed_msg L line e) []])
               (kept_lines L toks))"

text \<open>The insert attempts among recorded calls: the entry and the error returned.\<close>

fun insert_results :: "call list \<Rightarrow> (string \<times> string option) list" where
  "insert_results [] = []"
| "insert_results (ExecInsert t r # cs) = (t, r) # insert_results cs"
| "insert_results (c # cs) = insert_results cs"

definition inserted :: "(string \<times> string option) list \<Rightarrow> string list" where
  "inserted rs = map fst (filter (\<lambda>(t, r). r = None) rs)"

text \<open>The log record of an insert failure, as line 137 writes it.\<close>

definition insert_failed :: "string \<Rightarrow> string \<Rightarrow> log_record" where
  "insert_failed got t =
     Log LevelError ''failed to exec insert statement'' [(''err'', got), (''tld'', t)]"

text \<open>
  The store by itself: the results of inserting the entries one after the other,
  and the rows afterwards.
\<close>

fun exec_all ::
  "string option list \<Rightarrow> string list \<Rightarrow> string list \<Rightarrow> (string \<times> string option) list \<times> string list" where
  "exec_all faults rows [] = ([], rows)"
| "exec_all faults rows (t # ts) =
     (case stmt_ExecContext (case faults of [] \<Rightarrow> None | f # _ \<Rightarrow> f) rows t of
        (r, rows') \<Rightarrow>
          (case exec_all (tl faults) rows' ts of (rs, rows'') \<Rightarrow> ((t, r) # rs, rows'')))"

text \<open>The insert failures that are logged: those whose text is not the expected one.\<close>

definition insert_errors :: "(string \<times> string option) list \<Rightarrow> log_record list" where
  "insert_errors rs =
     concat (map (\<lambda>(t, r). case r of
                               None \<Rightarrow> []
                             | Some got \<Rightarrow> if got = want then [] else [insert_failed got t])
               rs)"

text \<open>The rows of the table at a path; none when there is no file or no table.\<close>

definition table_rows :: "world \<Rightarrow> string \<Rightarrow> string list" where
  "table_rows w f = (case files w f of Some (Tlds rows) \<Rightarrow> rows | Some No_table \<Rightarrow> [] | None \<Rightarrow> [])"

text \<open>
  An outside that answers the GET and delivers the line \<open>com\<close>, after which reading
  the body fails because the deadline has passed: \<open>Scan\<close> returns false and the
  error stays in the scanner.
\<close>

definition body_cut_off :: env where
  "body_cut_off =
     (serving [''com''])
       \<lparr>do_result :=
          Inr \<lparr>tokens = [''com''],
               scan_err = Some ''context deadline exceeded (Client.Timeout or context cancellation while reading body)'',
               close_err = None\<rparr>\<rparr>"

text \<open>An outside where the database is locked when the first insert is executed.\<close>

definition locked_once :: "string list \<Rightarrow> env" where
  "locked_once ls = (serving ls)\<lparr>insert_faults := [Some ''database is locked (5) (SQLITE_BUSY)'']\<rparr>"


subsection \<open>The scanner\<close>

text \<open>
  \<open>bufio.Scanner\<close> with its default split function \<open>ScanLines\<close> and its default
  buffer, on a body that is read to its end without a read error. \<open>raw_lines\<close> cuts
  the body at every line feed; a last piece without line feed counts when it is not
  empty. The scanner delivers each piece without a trailing carriage return, until a
  piece does not fit in the buffer of \<open>MaxScanTokenSize\<close> bytes: then \<open>Scan\<close> returns
  false, \<open>Err\<close> holds \<open>ErrTooLong\<close>, and nothing after that piece is delivered.
\<close>

definition MaxScanTokenSize :: nat where
  "MaxScanTokenSize = 64 * 1024"

definition ErrTooLong :: string where
  "ErrTooLong = ''bufio.Scanner: token too long''"

definition dropCR :: "string \<Rightarrow> string" where
  "dropCR data = (if data \<noteq> [] \<and> last data = CHR 0x0D then butlast data else data)"

fun raw_lines :: "string \<Rightarrow> string \<Rightarrow> string list" where
  "raw_lines cur [] = (if cur = [] then [] else [cur])"
| "raw_lines cur (c # cs) =
     (if c = CHR 0x0A then cur # raw_lines [] cs else raw_lines (cur @ [c]) cs)"

fun scan_tokens :: "string list \<Rightarrow> string list \<times> string option" where
  "scan_tokens [] = ([], None)"
| "scan_tokens (raw # rest) =
     (if MaxScanTokenSize \<le> length raw then ([], Some ErrTooLong)
      else (case scan_tokens rest of (ts, e) \<Rightarrow> (dropCR raw # ts, e)))"

definition Scanner :: "string \<Rightarrow> string list \<times> string option" where
  "Scanner body = scan_tokens (raw_lines [] body)"

text \<open>The response with a body that arrives whole, as the loop of \<open>loadTLDs\<close> sees it.\<close>

definition delivered :: "string \<Rightarrow> response" where
  "delivered body =
     \<lparr>tokens = fst (Scanner body), scan_err = snd (Scanner body), close_err = None\<rparr>"

text \<open>An outside where nothing fails, answering the GET with the given body.\<close>

definition fetched :: "string \<Rightarrow> env" where
  "fetched body = (serving [])\<lparr>do_result := Inr (delivered body)\<rparr>"

text \<open>The lines of a stream, in the words of the specification.\<close>

definition stream_lines :: "string \<Rightarrow> string list" where
  "stream_lines body = map dropCR (raw_lines [] body)"

text \<open>A body of three lines: \<open>com\<close>, a line of \<open>n\<close> letters, and \<open>net\<close>.\<close>

definition long_line_body :: "nat \<Rightarrow> string" where
  "long_line_body n =
     ''com'' @ CHR 0x0A # (replicate n (CHR ''a'') @ CHR 0x0A # (''net'' @ [CHR 0x0A]))"

section \<open>Properties\<close>

subsection \<open>Auxiliary facts\<close>

text \<open>Every logger level admits an error record, so \<open>l.Error\<close> always writes.\<close>

lemma Enabled_Error: "Enabled l LevelError"
  by (cases l) (simp_all add: Enabled_def)

lemma l_Error_eq: "l_Error l msg attrs w = w\<lparr>stderr := stderr w @ [Log LevelError msg attrs]\<rparr>"
  by (simp add: l_Error_def log_to_def Enabled_Error)

lemma kept_lines_Nil: "kept_lines L [] = []"
  by (simp add: kept_lines_def)

lemma kept_lines_Cons:
  "kept_lines L (text # rest) =
     (let line = ToLower L (TrimSpace L text) in
      if line = [] \<or> HasPrefix line ''#'' then kept_lines L rest else line # kept_lines L rest)"
  by (simp add: kept_lines_def Let_def)

lemma scan_loop_eq:
  "scan_loop L l toks tlds w =
     ((if parsed_entries L toks = [] then tlds else Some (elems tlds @ parsed_entries L toks)),
      w\<lparr>stderr := stderr w @ decode_failures L toks\<rparr>)"
proof (induction toks arbitrary: tlds w)
  case Nil
  show ?case by (simp add: parsed_entries_def decode_failures_def kept_lines_Nil)
next
  case (Cons tok rest)
  show ?case
  proof (cases "ToLower L (TrimSpace L tok) = [] \<or> HasPrefix (ToLower L (TrimSpace L tok)) ''#''")
    case True
    then show ?thesis
      using Cons.IH [of tlds w]
      by (simp add: parsed_entries_def decode_failures_def kept_lines_Cons Let_def)
  next
    case False
    obtain t err where d: "ToUnicode L (ToLower L (TrimSpace L tok)) = (t, err)"
      by (cases "ToUnicode L (ToLower L (TrimSpace L tok))")
    show ?thesis
      using False d
      by (cases err; cases tlds)
         (simp_all add: Cons.IH parsed_entries_def decode_failures_def kept_lines_Cons Let_def
            l_Error_eq append_slice_def elems_def)
  qed
qed

lemma insert_loop_eq:
  "insert_loop l tlds faults rows newTLDs w =
     (case exec_all faults rows tlds of
        (rs, rows') \<Rightarrow>
          (rows', newTLDs @ inserted rs,
           w\<lparr>stderr := stderr w @ insert_errors rs,
             calls := calls w @ map (\<lambda>(t, r). ExecInsert t r) rs\<rparr>))"
proof (induction tlds arbitrary: faults rows newTLDs w)
  case Nil
  show ?case by (simp add: inserted_def insert_errors_def)
next
  case (Cons t ts)
  obtain r rows1 where e: "stmt_ExecContext (case faults of [] \<Rightarrow> None | f # _ \<Rightarrow> f) rows t = (r, rows1)"
    by (cases "stmt_ExecContext (case faults of [] \<Rightarrow> None | f # _ \<Rightarrow> f) rows t")
  obtain rs rows2 where a: "exec_all (tl faults) rows1 ts = (rs, rows2)"
    by (cases "exec_all (tl faults) rows1 ts")
  show ?case
    using e a
    by (cases r)
       (simp_all add: Cons.IH Let_def inserted_def insert_errors_def did_def l_Error_eq insert_failed_def)
qed

lemma insert_results_map: "insert_results (map (\<lambda>(t, r). ExecInsert t r) rs) = rs"
  by (induction rs) auto

lemma insert_results_append: "insert_results (cs @ ds) = insert_results cs @ insert_results ds"
  by (induction cs rule: insert_results.induct) auto

lemma exec_all_fst: "map fst (fst (exec_all faults rows tlds)) = tlds"
proof (induction tlds arbitrary: faults rows)
  case Nil
  show ?case by simp
next
  case (Cons t ts)
  obtain r rows1 where e: "stmt_ExecContext (case faults of [] \<Rightarrow> None | f # _ \<Rightarrow> f) rows t = (r, rows1)"
    by (cases "stmt_ExecContext (case faults of [] \<Rightarrow> None | f # _ \<Rightarrow> f) rows t")
  obtain rs rows2 where a: "exec_all (tl faults) rows1 ts = (rs, rows2)"
    by (cases "exec_all (tl faults) rows1 ts")
  from Cons.IH [of "tl faults" rows1] a have "map fst rs = ts" by simp
  with e a show ?case by simp
qed


lemma exec_all_fresh:
  "faults = [] \<Longrightarrow> set (snd (exec_all faults rows tlds)) = set rows \<union> set tlds"
proof (induction tlds arbitrary: rows)
  case Nil
  show ?case by simp
next
  case (Cons t ts)
  show ?case
  proof (cases "t \<in> set rows")
    case True
    obtain rs rows2 where a: "exec_all [] rows ts = (rs, rows2)"
      by (cases "exec_all [] rows ts")
    with Cons.IH [OF Cons.prems, of rows] Cons.prems True show ?thesis
      by (auto simp: stmt_ExecContext_def)
  next
    case False
    obtain rs rows2 where a: "exec_all [] (rows @ [t]) ts = (rs, rows2)"
      by (cases "exec_all [] (rows @ [t]) ts")
    with Cons.IH [OF Cons.prems, of "rows @ [t]"] Cons.prems False show ?thesis
      by (auto simp: stmt_ExecContext_def)
  qed
qed

lemma did_simps [simp]:
  "files (did c w) = files w" "stdout (did c w) = stdout w"
  "stderr (did c w) = stderr w" "calls (did c w) = calls w @ [c]"
  by (simp_all add: did_def)

lemma log_to_simps [simp]:
  "files (log_to l r w) = files w" "stdout (log_to l r w) = stdout w"
  "calls (log_to l r w) = calls w"
  by (cases r; simp add: log_to_def)+

lemma l_Error_simps [simp]:
  "files (l_Error l m a w) = files w" "stdout (l_Error l m a w) = stdout w"
  "calls (l_Error l m a w) = calls w"
  "stderr (l_Error l m a w) = stderr w @ [Log LevelError m a]"
  by (simp_all add: l_Error_eq)

lemma l_Info_simps [simp]:
  "files (l_Info l m w) = files w" "stdout (l_Info l m w) = stdout w"
  "calls (l_Info l m w) = calls w"
  "stderr (l_Info l m w) = stderr w @ (if Enabled l LevelInfo then [Log LevelInfo m []] else [])"
  by (simp_all add: l_Info_def log_to_def)

lemma stmt_Close_simps [simp]:
  "files (stmt_Close E l w) = files w" "stdout (stmt_Close E l w) = stdout w"
  "calls (stmt_Close E l w) = calls w @ [CloseStmt]"
  "stderr (stmt_Close E l w) =
     stderr w @ (case stmt_close_err E of None \<Rightarrow> []
                 | Some e \<Rightarrow> [Log LevelError (''failed to close insert statement: '' @ e) []])"
  by (simp_all add: stmt_Close_def Let_def split: option.splits)

lemma loadTLDs_ok:
  "request_err E = None \<Longrightarrow> do_result E = Inr res \<Longrightarrow>
   loadTLDs L E l w =
     (Inr (if parsed_entries L (tokens res) = [] then None else Some (parsed_entries L (tokens res))),
      w\<lparr>stderr := stderr w @ decode_failures L (tokens res) @
           (case close_err res of None \<Rightarrow> []
            | Some e \<Rightarrow> [Log LevelError (''failed to close body: '' @ e) []])\<rparr>)"
  by (simp add: loadTLDs_def scan_loop_eq l_Error_eq elems_def split: option.splits)

lemma loadTLDs_failed:
  "loadTLDs L E l w = (Inl err, w') \<Longrightarrow>
     w' = w \<and> (request_err E \<noteq> None \<or> (\<exists>e. do_result E = Inl e))"
  by (auto simp: loadTLDs_def scan_loop_eq split: option.splits sum.splits)

lemma loadTLDs_Inr_D:
  "loadTLDs L E l w = (Inr tlds, w') \<Longrightarrow> \<exists>res. request_err E = None \<and> do_result E = Inr res"
  by (auto simp: loadTLDs_def scan_loop_eq split: option.splits sum.splits)

lemma run_None_D:
  assumes "run L E l f w = (None, w')"
  shows "\<exists>res. request_err E = None \<and> do_result E = Inr res \<and> write_err E = None \<and>
           stdout w' = stdout w @
             json_Marshal L (Some (inserted (fst (exec_all (insert_faults E) (table_rows w f) (parsed_entries L (tokens res)))))) @ [CHR 0x0A] \<and>
           insert_results (calls w') = insert_results (calls w) @ fst (exec_all (insert_faults E) (table_rows w f) (parsed_entries L (tokens res))) \<and>
           files w' = (files w)(f \<mapsto> Tlds (snd (exec_all (insert_faults E) (table_rows w f) (parsed_entries L (tokens res)))))"
proof -
  obtain r w1 where ld: "loadTLDs L E l w = (r, w1)" by (cases "loadTLDs L E l w")
  with assms obtain tlds where r: "r = Inr tlds"
    by (cases r) (auto simp: run_def)
  from ld r obtain res where f: "request_err E = None" "do_result E = Inr res"
    using loadTLDs_Inr_D by blast
  note ok = loadTLDs_ok [OF f, of L l w]
  show ?thesis
    using assms f
    by (auto simp: run_def ok Let_def insert_loop_eq db_Prepare_def db_Exec_init_def Encode_def elems_def
          insert_results_append insert_results_map table_rows_def
          split: option.splits prod.splits sum.splits if_splits dbfile.splits)
qed

subsection \<open>Configuration\<close>

text \<open>
  Claim C8. Debug mode (logger level Debug instead of Info) is on exactly when the
  parsed \<open>-debug\<close> flag is true or the variable \<open>DEBUG\<close> is set to the string \<open>true\<close>;
  no other value of the variable turns it on, and no value turns a given flag off.
\<close>

theorem debug_mode_iff:
  "main_level debug_flag environ =
     (if debug_flag \<or> environ ''DEBUG'' = Some ''true'' then LevelDebug else LevelInfo)"
  by (cases "environ ''DEBUG''") (simp_all add: main_level_def getenv_def os_Getenv_def Let_def)

theorem debug_mode_iff_witness:
  "main_level False [''DEBUG'' \<mapsto> ''true''] = LevelDebug \<and>
   main_level False [''DEBUG'' \<mapsto> ''TRUE''] = LevelInfo \<and>
   main_level False [''DEBUG'' \<mapsto> ''1''] = LevelInfo \<and>
   main_level False Map.empty = LevelInfo \<and>
   main_level True [''DEBUG'' \<mapsto> ''false''] = LevelDebug \<and>
   main_level True Map.empty = LevelDebug"
  using debug_mode_iff [of False "[''DEBUG'' \<mapsto> ''true'']"]
    debug_mode_iff [of False "[''DEBUG'' \<mapsto> ''TRUE'']"]
    debug_mode_iff [of False "[''DEBUG'' \<mapsto> ''1'']"]
    debug_mode_iff [of False Map.empty]
    debug_mode_iff [of True "[''DEBUG'' \<mapsto> ''false'']"]
    debug_mode_iff [of True Map.empty]
  by simp

text \<open>
  Claim C10. For \<open>SQLITE_FILE\<close> and \<open>DEBUG\<close>, a variable set to the empty string is
  treated as a variable that is not set: \<open>getenv\<close> gives the fallback, so the path is
  \<open>./db.sqlite\<close>, the level is decided by the flag alone, and \<open>main\<close> behaves the same.
\<close>

theorem empty_variable_is_unset:
  "getenv (environ(key \<mapsto> [])) key fallback = fallback \<and>
   getenv (environ(key := None)) key fallback = fallback \<and>
   main_sqliteFile (environ(''SQLITE_FILE'' \<mapsto> [])) = ''./db.sqlite'' \<and>
   main_sqliteFile (environ(''SQLITE_FILE'' := None)) = ''./db.sqlite'' \<and>
   main_level debug_flag (environ(''DEBUG'' \<mapsto> [])) = main_level debug_flag (environ(''DEBUG'' := None)) \<and>
   main_level debug_flag (environ(''DEBUG'' \<mapsto> [])) = (if debug_flag then LevelDebug else LevelInfo) \<and>
   main L E debug_flag (environ(''SQLITE_FILE'' \<mapsto> [])) w = main L E debug_flag (environ(''SQLITE_FILE'' := None)) w \<and>
   main L E debug_flag (environ(''DEBUG'' \<mapsto> [])) w = main L E debug_flag (environ(''DEBUG'' := None)) w"
  by (simp add: main_def main_sqliteFile_def main_level_def getenv_def os_Getenv_def Let_def
        defaultSQLiteFilePath_def)

theorem empty_variable_is_unset_witness:
  "main_sqliteFile [''HOME'' \<mapsto> ''/root'', ''SQLITE_FILE'' \<mapsto> []] = ''./db.sqlite'' \<and>
   main_level False [''HOME'' \<mapsto> ''/root'', ''DEBUG'' \<mapsto> []] = (if False then LevelDebug else LevelInfo)"
  using empty_variable_is_unset
    [of "[''HOME'' \<mapsto> ''/root'']" "''SQLITE_FILE''" "''./db.sqlite''" False sample_libs "serving []" world0]
  by blast

subsection \<open>Parsing\<close>

text \<open>
  In terms of the lines the scanner delivered: the parsed sequence is exactly those
  that, trimmed and lowercased, are not empty and do not begin with \<open>#\<close>, each passed
  through the decoder, in order and without deduplication (the slice is \<open>nil\<close> when
  there is none). The lines \<open># comment\<close>, the empty line, \<open>COM\<close> and \<open>XN--P1AI\<close> give
  \<open>com\<close> and the Cyrillic TLD.
\<close>

theorem loadTLDs_parsed_entries:
  assumes "request_err E = None" and "do_result E = Inr res"
  shows "fst (loadTLDs L E l w) =
           Inr (if parsed_entries L (tokens res) = [] then None
                else Some (parsed_entries L (tokens res)))"
  by (simp add: loadTLDs_ok [OF assms])

theorem loadTLDs_parsed_entries_witness:
  "fst (loadTLDs sample_libs (serving [''# comment'', '''', ''COM'', ''XN--P1AI'']) LevelInfo world0) =
     Inr (Some [''com'', [CHR 0xD1, CHR 0x80, CHR 0xD1, CHR 0x84]])"
proof -
  let ?E = "serving [''# comment'', '''', ''COM'', ''XN--P1AI'']"
  have r: "request_err ?E = None" by (simp add: serving_def)
  have d: "do_result ?E =
             Inr \<lparr>tokens = [''# comment'', '''', ''COM'', ''XN--P1AI''], scan_err = None, close_err = None\<rparr>"
    by (simp add: serving_def)
  have p: "parsed_entries sample_libs [''# comment'', '''', ''COM'', ''XN--P1AI''] =
             [''com'', [CHR 0xD1, CHR 0x80, CHR 0xD1, CHR 0x84]]"
    by code_simp
  show ?thesis
    using loadTLDs_parsed_entries [OF r d, of sample_libs LevelInfo world0] by (simp add: p)
qed

text \<open>The record of a decode failure of a kept line is among the records written.\<close>

lemma decode_failure_in_log:
  assumes "line \<in> set (kept_lines L toks)" and "ToUnicode L line = (t, Some e)"
  shows "Log LevelError (decode_failed_msg L line e) [] \<in> set (decode_failures L toks)"
  using assms by (force simp: decode_failures_def)

text \<open>
  Claim C1, as the code has it. For every line that reaches the decoder and whose
  decoding fails, the failure is logged with the line and the error, \<open>loadTLDs\<close>
  returns without error, and the entry at the position of the line is the string the
  decoder returned with the error; no entry is dropped. That string is the original
  line only when the decoder returned the line unchanged.
\<close>

theorem decode_failure_logged_entry_kept:
  assumes "request_err E = None" and "do_result E = Inr res"
    and "tok \<in> set (tokens res)" and "line = ToLower L (TrimSpace L tok)"
    and "line \<noteq> []" and "\<not> HasPrefix line ''#''"
    and "ToUnicode L line = (t, Some e)"
  shows "\<exists>tlds w'. loadTLDs L E l w = (Inr (Some tlds), w') \<and>
           tlds = map (\<lambda>line. fst (ToUnicode L line)) (kept_lines L (tokens res)) \<and>
           (\<exists>i < length tlds. kept_lines L (tokens res) ! i = line \<and> tlds ! i = t) \<and>
           Log LevelError (decode_failed_msg L line e) [] \<in> set (stderr w')"
proof -
  from assms(3-6) have k: "line \<in> set (kept_lines L (tokens res))"
    by (auto simp: kept_lines_def)
  then obtain i where i: "i < length (kept_lines L (tokens res))" "kept_lines L (tokens res) ! i = line"
    by (auto simp: in_set_conv_nth)
  from k have ne: "parsed_entries L (tokens res) \<noteq> []"
    by (auto simp: parsed_entries_def)
  from i assms(7) have n: "parsed_entries L (tokens res) ! i = t"
    by (simp add: parsed_entries_def)
  have lg: "Log LevelError (decode_failed_msg L line e) [] \<in> set (decode_failures L (tokens res))"
    by (rule decode_failure_in_log [OF k assms(7)])
  show ?thesis
    using loadTLDs_ok [OF assms(1,2), of L l w] ne n i lg
    by (auto simp: parsed_entries_def)
qed

theorem decode_failure_logged_entry_kept_witness:
  "\<exists>tlds w'. loadTLDs sample_libs (serving [''COM'', ''XN--P1AI.XN--1'']) LevelInfo world0 = (Inr (Some tlds), w') \<and>
     tlds = map (\<lambda>line. fst (ToUnicode sample_libs line))
              (kept_lines sample_libs [''COM'', ''XN--P1AI.XN--1'']) \<and>
     (\<exists>i < length tlds. kept_lines sample_libs [''COM'', ''XN--P1AI.XN--1''] ! i = ''xn--p1ai.xn--1'' \<and>
         tlds ! i = rf @ ''.xn--1'') \<and>
     Log LevelError
       (decode_failed_msg sample_libs ''xn--p1ai.xn--1'' (''idna: invalid label '' @ [CHR 0x22] @ ''1'' @ [CHR 0x22])) []
       \<in> set (stderr w')"
proof -
  let ?toks = "[''COM'', ''XN--P1AI.XN--1'']"
  let ?E = "serving ?toks"
  have r: "request_err ?E = None" by (simp add: serving_def)
  have d: "do_result ?E = Inr \<lparr>tokens = ?toks, scan_err = None, close_err = None\<rparr>"
    by (simp add: serving_def)
  have m: "''XN--P1AI.XN--1'' \<in> set (tokens \<lparr>tokens = ?toks, scan_err = None, close_err = None\<rparr>)"
    by simp
  have n: "''xn--p1ai.xn--1'' = ToLower sample_libs (TrimSpace sample_libs ''XN--P1AI.XN--1'')"
    by code_simp
  have e: "''xn--p1ai.xn--1'' \<noteq> []" by simp
  have h: "\<not> HasPrefix ''xn--p1ai.xn--1'' ''#''" by code_simp
  have u: "ToUnicode sample_libs ''xn--p1ai.xn--1'' =
             (rf @ ''.xn--1'', Some (''idna: invalid label '' @ [CHR 0x22] @ ''1'' @ [CHR 0x22]))"
    by code_simp
  show ?thesis
    using decode_failure_logged_entry_kept [OF r d m n e h u, of LevelInfo world0] by simp
qed

text \<open>
  Against C1 as stated: the decoder returns a partially processed result with the
  error, and that result, not the line, is appended. For the line
  \<open>XN--P1AI.XN--1\<close> the entry is the decoded first label followed by \<open>.xn--1\<close>.
\<close>

theorem decode_failure_entry_not_original:
  "ToLower sample_libs (TrimSpace sample_libs ''XN--P1AI.XN--1'') = ''xn--p1ai.xn--1'' \<and>
   snd (ToUnicode sample_libs ''xn--p1ai.xn--1'') \<noteq> None \<and>
   fst (loadTLDs sample_libs (serving [''XN--P1AI.XN--1'']) LevelInfo world0) =
     Inr (Some [[CHR 0xD1, CHR 0x80, CHR 0xD1, CHR 0x84] @ ''.xn--1'']) \<and>
   [CHR 0xD1, CHR 0x80, CHR 0xD1, CHR 0x84] @ ''.xn--1'' \<noteq> ''xn--p1ai.xn--1''"
  by code_simp

text \<open>
  Claim C6, as the code has it. Lowercasing happens before decoding and not after.
  Where lowercasing a lowercased line changes nothing, every line handed to the
  decoder is lowercase, each entry is the decoder's result for its line, and an
  entry the decoder left as the line is lowercase.
\<close>

theorem entries_lowercase_when_unchanged:
  assumes "request_err E = None" and "do_result E = Inr res"
    and "\<forall>tok \<in> set (tokens res).
           ToLower L (ToLower L (TrimSpace L tok)) = ToLower L (TrimSpace L tok)"
  shows "\<exists>tlds w'. loadTLDs L E l w = (Inr tlds, w') \<and>
           list_all2 (\<lambda>line t. ToLower L line = line \<and> t = fst (ToUnicode L line) \<and>
                        (t = line \<longrightarrow> ToLower L t = t))
             (kept_lines L (tokens res)) (elems tlds)"
proof -
  from assms(3) have low: "\<forall>line \<in> set (kept_lines L (tokens res)). ToLower L line = line"
    by (auto simp: kept_lines_def)
  have "list_all2 (\<lambda>line t. ToLower L line = line \<and> t = fst (ToUnicode L line) \<and>
                        (t = line \<longrightarrow> ToLower L t = t))
          (kept_lines L (tokens res)) (parsed_entries L (tokens res))"
    using low by (auto simp: parsed_entries_def list_all2_conv_all_nth)
  then show ?thesis
    using loadTLDs_ok [OF assms(1,2), of L l w]
    by (auto simp: elems_def parsed_entries_def)
qed

theorem entries_lowercase_when_unchanged_witness:
  "\<exists>tlds w'. loadTLDs sample_libs (serving [''COM'', '' Xn--P1AI '']) LevelInfo world0 = (Inr tlds, w') \<and>
     list_all2 (\<lambda>line t. ToLower sample_libs line = line \<and> t = fst (ToUnicode sample_libs line) \<and>
                  (t = line \<longrightarrow> ToLower sample_libs t = t))
       (kept_lines sample_libs [''COM'', '' Xn--P1AI '']) (elems tlds)"
proof -
  let ?toks = "[''COM'', '' Xn--P1AI '']"
  let ?E = "serving ?toks"
  have r: "request_err ?E = None" by (simp add: serving_def)
  have d: "do_result ?E = Inr \<lparr>tokens = ?toks, scan_err = None, close_err = None\<rparr>"
    by (simp add: serving_def)
  have i: "\<forall>tok \<in> set (tokens \<lparr>tokens = ?toks, scan_err = None, close_err = None\<rparr>).
             ToLower sample_libs (ToLower sample_libs (TrimSpace sample_libs tok)) =
             ToLower sample_libs (TrimSpace sample_libs tok)"
    by code_simp
  show ?thesis
    using entries_lowercase_when_unchanged [OF r d i, of LevelInfo world0] by simp
qed

text \<open>
  Against C6 as stated: \<open>XN--WCA\<close> is lowercased to \<open>xn--wca\<close>, which decodes to the
  capital letter U+00DC; the entry is that capital letter, which lowercasing would
  change.
\<close>

theorem decoded_entry_not_lowercase:
  "fst (loadTLDs sample_libs (serving [''XN--WCA'']) LevelInfo world0) =
     Inr (Some [[CHR 0xC3, CHR 0x9C]]) \<and>
   ToLower sample_libs [CHR 0xC3, CHR 0x9C] = [CHR 0xC3, CHR 0xBC] \<and>
   ToLower sample_libs [CHR 0xC3, CHR 0x9C] \<noteq> [CHR 0xC3, CHR 0x9C]"
  by code_simp

subsection \<open>Inserting\<close>

text \<open>An insert either succeeds and adds the row, or fails and leaves the rows.\<close>

lemma stmt_ExecContext_cases:
  "stmt_ExecContext fault rows t = (r, rows1) \<Longrightarrow>
     (r = None \<and> rows1 = rows @ [t]) \<or> (r \<noteq> None \<and> rows1 = rows)"
  by (cases fault) (auto simp: stmt_ExecContext_def split: if_splits)

lemma exec_all_rows:
  "snd (exec_all faults rows tlds) = rows @ inserted (fst (exec_all faults rows tlds))"
proof (induction tlds arbitrary: faults rows)
  case Nil
  show ?case by (simp add: inserted_def)
next
  case (Cons t ts)
  obtain r rows1 where e: "stmt_ExecContext (case faults of [] \<Rightarrow> None | f # _ \<Rightarrow> f) rows t = (r, rows1)"
    by (cases "stmt_ExecContext (case faults of [] \<Rightarrow> None | f # _ \<Rightarrow> f) rows t")
  obtain rs rows2 where a: "exec_all (tl faults) rows1 ts = (rs, rows2)"
    by (cases "exec_all (tl faults) rows1 ts")
  from Cons.IH [of "tl faults" rows1] a have ih: "rows2 = rows1 @ inserted rs" by simp
  from stmt_ExecContext_cases [OF e]
  have "(r = None \<and> rows1 = rows @ [t]) \<or> (r \<noteq> None \<and> rows1 = rows)" .
  with e a ih show ?case by (auto simp: inserted_def)
qed

lemma inserted_append: "inserted (rs @ rs') = inserted rs @ inserted rs'"
  by (simp add: inserted_def)

lemma subseq_inserted: "subseq (inserted rs) (map fst rs)"
  by (simp add: inserted_def subseq_map)

text \<open>
  Claim C2, as the code has it. The loop makes one insert attempt for every fetched
  entry, in order; an entry occurrence is in the result exactly when its attempt
  returned no error at all, and the result is exactly what the run added to the table.
\<close>

theorem new_iff_insert_succeeded:
  assumes "insert_loop l tlds faults rows [] w = (rows', newTLDs, w')"
  shows "\<exists>cs. calls w' = calls w @ cs \<and>
           map fst (insert_results cs) = tlds \<and>
           newTLDs = map fst (filter (\<lambda>(t, r). r = None) (insert_results cs)) \<and>
           rows' = rows @ newTLDs"
proof -
  obtain rs rows2 where a: "exec_all faults rows tlds = (rs, rows2)"
    by (cases "exec_all faults rows tlds")
  from a have m: "map fst rs = tlds" using exec_all_fst [of faults rows tlds] by simp
  from a have r: "rows2 = rows @ inserted rs" using exec_all_rows [of faults rows tlds] by simp
  from assms a have "rows' = rows2" "newTLDs = inserted rs"
    "calls w' = calls w @ map (\<lambda>(t, r). ExecInsert t r) rs"
    by (auto simp: insert_loop_eq)
  with m r show ?thesis
    by (auto simp: insert_results_map inserted_def)
qed

theorem new_iff_insert_succeeded_witness:
  "\<exists>cs. calls (snd (snd (insert_loop LevelInfo [''com'', ''net'', ''com''] [] [''net''] [] world0))) =
          calls world0 @ cs \<and>
     map fst (insert_results cs) = [''com'', ''net'', ''com''] \<and>
     fst (snd (insert_loop LevelInfo [''com'', ''net'', ''com''] [] [''net''] [] world0)) =
       map fst (filter (\<lambda>(t, r). r = None) (insert_results cs)) \<and>
     fst (insert_loop LevelInfo [''com'', ''net'', ''com''] [] [''net''] [] world0) =
       [''net''] @ fst (snd (insert_loop LevelInfo [''com'', ''net'', ''com''] [] [''net''] [] world0))"
  using new_iff_insert_succeeded
    [of LevelInfo "[''com'', ''net'', ''com'']" "[]" "[''net'']" world0
        "fst (insert_loop LevelInfo [''com'', ''net'', ''com''] [] [''net''] [] world0)"
        "fst (snd (insert_loop LevelInfo [''com'', ''net'', ''com''] [] [''net''] [] world0))"
        "snd (snd (insert_loop LevelInfo [''com'', ''net'', ''com''] [] [''net''] [] world0))"]
  by simp

text \<open>
  Against C2 as stated: an insert that fails for another reason than the uniqueness
  constraint (here a locked database, with an empty table) is left out of the result.
\<close>

theorem other_failure_not_reported_as_new:
  "fst (stmt_ExecContext (Some ''database is locked (5) (SQLITE_BUSY)'') [] ''com'') \<noteq>
     Some primary_key_violation \<and>
   fst (run sample_libs (locked_once [''com'']) LevelInfo ''./db.sqlite'' world0) = None \<and>
   insert_results (calls (snd (run sample_libs (locked_once [''com'']) LevelInfo ''./db.sqlite'' world0))) =
     [(''com'', Some ''database is locked (5) (SQLITE_BUSY)'')] \<and>
   stdout (snd (run sample_libs (locked_once [''com'']) LevelInfo ''./db.sqlite'' world0)) =
     ''[]'' @ [CHR 0x0A]"
  by code_simp

text \<open>
  Claim C9. Every entry is attempted, whatever the earlier attempts returned. An
  insert failure is passed over in silence only when the text of the error is exactly
  the expected string; a failure with any other text is logged with the error and the
  entry; in both cases the entry is not in the result.
\<close>

theorem only_exact_text_is_silent:
  assumes "insert_loop l tlds faults rows newTLDs w = (rows', newTLDs', w')"
  shows "\<exists>rs. map fst rs = tlds \<and>
           calls w' = calls w @ map (\<lambda>(t, r). ExecInsert t r) rs \<and>
           stderr w' = stderr w @
             concat (map (\<lambda>(t, r). case r of
                                      None \<Rightarrow> []
                                    | Some got \<Rightarrow>
                                        if got = ''constraint failed: UNIQUE constraint failed: tlds.tld (1555)''
                                        then []
                                        else [Log LevelError ''failed to exec insert statement''
                                                [(''err'', got), (''tld'', t)]])
                       rs) \<and>
           newTLDs' = newTLDs @ map fst (filter (\<lambda>(t, r). r = None) rs)"
proof -
  obtain rs rows2 where a: "exec_all faults rows tlds = (rs, rows2)"
    by (cases "exec_all faults rows tlds")
  from a have m: "map fst rs = tlds" using exec_all_fst [of faults rows tlds] by simp
  from assms a have "newTLDs' = newTLDs @ inserted rs"
    "calls w' = calls w @ map (\<lambda>(t, r). ExecInsert t r) rs"
    "stderr w' = stderr w @ insert_errors rs"
    by (auto simp: insert_loop_eq)
  with m show ?thesis
    unfolding inserted_def insert_errors_def want_def insert_failed_def
    by (intro exI [of _ rs]) simp
qed

theorem only_exact_text_is_silent_witness:
  "(\<exists>rs. map fst rs = [''com'', ''net''] \<and>
      calls (snd (snd (insert_loop LevelInfo [''com'', ''net''] [None, Some ''UNIQUE constraint failed: tlds.tld''] [''com''] [] world0))) =
        calls world0 @ map (\<lambda>(t, r). ExecInsert t r) rs \<and>
      stderr (snd (snd (insert_loop LevelInfo [''com'', ''net''] [None, Some ''UNIQUE constraint failed: tlds.tld''] [''com''] [] world0))) =
        stderr world0 @
        concat (map (\<lambda>(t, r). case r of
                                 None \<Rightarrow> []
                               | Some got \<Rightarrow>
                                   if got = ''constraint failed: UNIQUE constraint failed: tlds.tld (1555)''
                                   then []
                                   else [Log LevelError ''failed to exec insert statement''
                                           [(''err'', got), (''tld'', t)]])
                  rs) \<and>
      fst (snd (insert_loop LevelInfo [''com'', ''net''] [None, Some ''UNIQUE constraint failed: tlds.tld''] [''com''] [] world0)) =
        [] @ map fst (filter (\<lambda>(t, r). r = None) rs)) \<and>
   stderr (snd (snd (insert_loop LevelInfo [''com'', ''net''] [None, Some ''UNIQUE constraint failed: tlds.tld''] [''com''] [] world0))) =
     [Log LevelError ''failed to exec insert statement''
        [(''err'', ''UNIQUE constraint failed: tlds.tld''), (''tld'', ''net'')]]"
proof -
  let ?X = "insert_loop LevelInfo [''com'', ''net''] [None, Some ''UNIQUE constraint failed: tlds.tld''] [''com''] [] world0"
  have h: "?X = (fst ?X, fst (snd ?X), snd (snd ?X))" by simp
  have v: "stderr (snd (snd ?X)) =
     [Log LevelError ''failed to exec insert statement''
        [(''err'', ''UNIQUE constraint failed: tlds.tld''), (''tld'', ''net'')]]"
    by code_simp
  from only_exact_text_is_silent [OF h] v show ?thesis by blast
qed

subsection \<open>Runs\<close>







text \<open>A successful run without outside faults leaves every fetched entry in the table.\<close>

lemma first_run_stores_all:
  assumes "run L E l f w = (None, w')" and "insert_faults E = []"
  shows "\<exists>res. do_result E = Inr res \<and> set (parsed_entries L (tokens res)) \<subseteq> set (table_rows w' f)"
proof -
  from run_None_D [OF assms(1)] obtain res where
    d: "do_result E = Inr res" and
    f: "files w' = (files w)(f \<mapsto> Tlds (snd (exec_all (insert_faults E) (table_rows w f) (parsed_entries L (tokens res)))))"
    by blast
  from f have "table_rows w' f = snd (exec_all [] (table_rows w f) (parsed_entries L (tokens res)))"
    by (simp add: table_rows_def assms(2))
  with exec_all_fresh [of "[]" "table_rows w f" "parsed_entries L (tokens res)"] d
  show ?thesis by auto
qed

text \<open>
  Claim C4. A run that returns no error has appended to standard output one JSON
  document and a newline: the array of the entries it inserted, which are a
  subsequence of the parsed entries in their order and are the rows it added; the
  array is \<open>[]\<close> when nothing was inserted.
\<close>

theorem success_writes_json_array:
  assumes "run L E l f w = (None, w')"
  shows "\<exists>res new. do_result E = Inr res \<and>
           subseq new (parsed_entries L (tokens res)) \<and>
           inserted (insert_results (calls w')) = inserted (insert_results (calls w)) @ new \<and>
           table_rows w' f = table_rows w f @ new \<and>
           stdout w' = stdout w @ ''['' @ join '','' (map (json_string L) new) @ '']'' @ [CHR 0x0A] \<and>
           (new = [] \<longrightarrow> stdout w' = stdout w @ ''[]'' @ [CHR 0x0A])"
proof -
  from run_None_D [OF assms] obtain res where
    d: "do_result E = Inr res" and
    s: "stdout w' = stdout w @
          json_Marshal L (Some (inserted (fst (exec_all (insert_faults E) (table_rows w f) (parsed_entries L (tokens res)))))) @ [CHR 0x0A]" and
    c: "insert_results (calls w') = insert_results (calls w) @ fst (exec_all (insert_faults E) (table_rows w f) (parsed_entries L (tokens res)))" and
    f: "files w' = (files w)(f \<mapsto> Tlds (snd (exec_all (insert_faults E) (table_rows w f) (parsed_entries L (tokens res)))))"
    by blast
  let ?rs = "fst (exec_all (insert_faults E) (table_rows w f) (parsed_entries L (tokens res)))"
  have q: "subseq (inserted ?rs) (parsed_entries L (tokens res))"
    using subseq_inserted [of ?rs] by (simp add: exec_all_fst)
  have t: "table_rows w' f = table_rows w f @ inserted ?rs"
    using exec_all_rows [of "insert_faults E" "table_rows w f" "parsed_entries L (tokens res)"]
    by (simp add: f table_rows_def)
  show ?thesis
    using d q t s c
    by (intro exI [of _ res] exI [of _ "inserted ?rs"]) (simp add: json_Marshal_def inserted_append)
qed

theorem success_writes_json_array_witness:
  "(\<exists>res new. do_result (serving [''# comment'', [], ''COM'', ''XN--P1AI'']) = Inr res \<and>
      subseq new (parsed_entries sample_libs (tokens res)) \<and>
      inserted (insert_results (calls (snd (run sample_libs (serving [''# comment'', [], ''COM'', ''XN--P1AI'']) LevelInfo ''./db.sqlite'' world0)))) =
        inserted (insert_results (calls world0)) @ new \<and>
      table_rows (snd (run sample_libs (serving [''# comment'', [], ''COM'', ''XN--P1AI'']) LevelInfo ''./db.sqlite'' world0)) ''./db.sqlite'' =
        table_rows world0 ''./db.sqlite'' @ new \<and>
      stdout (snd (run sample_libs (serving [''# comment'', [], ''COM'', ''XN--P1AI'']) LevelInfo ''./db.sqlite'' world0)) =
        stdout world0 @ ''['' @ join '','' (map (json_string sample_libs) new) @ '']'' @ [CHR 0x0A] \<and>
      (new = [] \<longrightarrow>
         stdout (snd (run sample_libs (serving [''# comment'', [], ''COM'', ''XN--P1AI'']) LevelInfo ''./db.sqlite'' world0)) =
           stdout world0 @ ''[]'' @ [CHR 0x0A])) \<and>
   stdout (snd (run sample_libs (serving [''# comment'', [], ''COM'', ''XN--P1AI'']) LevelInfo ''./db.sqlite'' world0)) =
     ''['' @ quoted ''com'' @ '','' @ quoted rf @ '']'' @ [CHR 0x0A] \<and>
   stdout (snd (run sample_libs (serving []) LevelInfo ''./db.sqlite'' world0)) = ''[]'' @ [CHR 0x0A]"
proof -
  let ?R = "run sample_libs (serving [''# comment'', [], ''COM'', ''XN--P1AI'']) LevelInfo ''./db.sqlite'' world0"
  have n: "fst ?R = None" by code_simp
  have h: "?R = (None, snd ?R)" using n by (simp add: prod_eq_iff)
  have v: "stdout (snd ?R) = ''['' @ quoted ''com'' @ '','' @ quoted rf @ '']'' @ [CHR 0x0A]"
    by code_simp
  have z: "stdout (snd (run sample_libs (serving []) LevelInfo ''./db.sqlite'' world0)) = ''[]'' @ [CHR 0x0A]"
    by code_simp
  from success_writes_json_array [OF h] v z show ?thesis by blast
qed

text \<open>
  When the request cannot be constructed or \<open>Client.Do\<close> fails, \<open>run\<close> returns the
  error and the world is as before: no store operation, no output, no log record.
\<close>

lemma fetch_error_aborts_before_store:
  "request_err E = Some e \<Longrightarrow> run L E l f w = (Some (CreateRequestFailed e), w)"
  "request_err E = None \<Longrightarrow> do_result E = Inl e \<Longrightarrow> run L E l f w = (Some (GetFailed e), w)"
  by (simp_all add: run_def loadTLDs_def)

text \<open>
  Claim C7 at a fetch that fails while the body is read. The scanner stops at the
  read error, which is never consulted (there is no \<open>scanner.Err()\<close> in \<open>loadTLDs\<close>),
  so the lines read so far are returned without error: the run creates the store,
  inserts \<open>com\<close> and writes the array.
\<close>

theorem run_goes_on_after_body_read_error:
  "do_result body_cut_off =
     Inr \<lparr>tokens = [''com''],
          scan_err = Some ''context deadline exceeded (Client.Timeout or context cancellation while reading body)'',
          close_err = None\<rparr> \<and>
   fst (run sample_libs body_cut_off LevelInfo ''./db.sqlite'' world0) = None \<and>
   calls (snd (run sample_libs body_cut_off LevelInfo ''./db.sqlite'' world0)) =
     [Stat ''./db.sqlite'', Open ''./db.sqlite'', ExecInit, Prepare, ExecInsert ''com'' None, CloseStmt] \<and>
   files (snd (run sample_libs body_cut_off LevelInfo ''./db.sqlite'' world0)) ''./db.sqlite'' =
     Some (Tlds [''com'']) \<and>
   stdout (snd (run sample_libs body_cut_off LevelInfo ''./db.sqlite'' world0)) =
     ''['' @ quoted ''com'' @ '']'' @ [CHR 0x0A]"
  by code_simp

subsection \<open>Lines the scanner does not deliver\<close>

text \<open>A piece of the body that ends in a line feed is one raw line.\<close>

lemma raw_lines_line:
  "CHR 0x0A \<notin> set xs \<Longrightarrow> raw_lines cur (xs @ CHR 0x0A # rest) = (cur @ xs) # raw_lines [] rest"
  by (induction xs arbitrary: cur) auto

lemma raw_lines_long_line_body:
  "raw_lines [] (long_line_body n) = [''com'', replicate n (CHR ''a''), ''net'']"
proof -
  have a: "raw_lines [] (''net'' @ [CHR 0x0A]) = [''net'']"
    using raw_lines_line [of "''net''" "[]" "[]"] by simp
  have b: "raw_lines [] (replicate n (CHR ''a'') @ CHR 0x0A # (''net'' @ [CHR 0x0A])) =
             [replicate n (CHR ''a''), ''net'']"
    using raw_lines_line [of "replicate n (CHR ''a'')" "[]" "''net'' @ [CHR 0x0A]"] a by simp
  show ?thesis
    unfolding long_line_body_def
    using raw_lines_line [of "''com''" "[]" "replicate n (CHR ''a'') @ CHR 0x0A # (''net'' @ [CHR 0x0A])"] b
    by simp
qed

lemma Scanner_long_line_body:
  "MaxScanTokenSize \<le> n \<Longrightarrow> Scanner (long_line_body n) = ([''com''], Some ErrTooLong)"
  by (simp add: Scanner_def raw_lines_long_line_body dropCR_def MaxScanTokenSize_def)

lemma scan_tokens_short:
  "\<forall>raw \<in> set rs. length raw < MaxScanTokenSize \<Longrightarrow> scan_tokens rs = (map dropCR rs, None)"
  by (induction rs) auto

lemma Scanner_short_lines:
  "\<forall>raw \<in> set (raw_lines [] body). length raw < MaxScanTokenSize \<Longrightarrow>
     Scanner body = (stream_lines body, None)"
  by (simp add: Scanner_def stream_lines_def scan_tokens_short)

text \<open>
  For a body whose lines all fit in the buffer, the parsed sequence is that of the
  lines of the stream.
\<close>

lemma loadTLDs_short_lines:
  assumes "request_err E = None" and "do_result E = Inr (delivered body)"
    and "\<forall>raw \<in> set (raw_lines [] body). length raw < MaxScanTokenSize"
  shows "fst (loadTLDs L E l w) =
           Inr (if parsed_entries L (stream_lines body) = [] then None
                else Some (parsed_entries L (stream_lines body)))"
  using loadTLDs_ok [OF assms(1,2), of L l w] Scanner_short_lines [OF assms(3)]
  by (simp add: delivered_def)

text \<open>
  Claim C3 at a stream with a line that does not fit in the buffer. The stream has the
  lines \<open>com\<close>, 70000 letters and \<open>net\<close>; \<open>net\<close> is a line that the parsed sequence
  should hold. The scanner stops at the long line with \<open>ErrTooLong\<close>, which is never
  consulted (there is no \<open>scanner.Err()\<close> in \<open>loadTLDs\<close>), so the parsed sequence is
  \<open>com\<close> alone and is returned without error.
\<close>

theorem long_line_ends_parsing:
  "stream_lines (long_line_body 70000) = [''com'', replicate 70000 (CHR ''a''), ''net''] \<and>
   parsed_entries sample_libs [''net''] = [''net''] \<and>
   Scanner (long_line_body 70000) = ([''com''], Some ''bufio.Scanner: token too long'') \<and>
   fst (loadTLDs sample_libs (fetched (long_line_body 70000)) LevelInfo world0) = Inr (Some [''com''])"
proof -
  have m: "MaxScanTokenSize \<le> 70000" by (simp add: MaxScanTokenSize_def)
  note s = Scanner_long_line_body [OF m]
  have a: "stream_lines (long_line_body 70000) = [''com'', replicate 70000 (CHR ''a''), ''net'']"
    by (simp add: stream_lines_def raw_lines_long_line_body dropCR_def)
  have b: "parsed_entries sample_libs [''net''] = [''net'']" by code_simp
  have c: "Scanner (long_line_body 70000) = ([''com''], Some ''bufio.Scanner: token too long'')"
    using s by (simp add: ErrTooLong_def)
  have r: "request_err (fetched (long_line_body 70000)) = None"
    by (simp add: fetched_def serving_def)
  have d: "do_result (fetched (long_line_body 70000)) = Inr (delivered (long_line_body 70000))"
    by (simp add: fetched_def)
  have p: "parsed_entries sample_libs [''com''] = [''com'']" by code_simp
  have e: "fst (loadTLDs sample_libs (fetched (long_line_body 70000)) LevelInfo world0) = Inr (Some [''com''])"
    using loadTLDs_ok [OF r d, of sample_libs LevelInfo world0]
    by (simp add: delivered_def s p)
  from a b c e show ?thesis by blast
qed

end
